theory Spec2Isabelle
  imports Main "HOL-Library.Word" "HOL-Library.Sublist"
begin

section \<open>JavaScript strings and arrays\<close>

text \<open>
  A JavaScript string is a sequence of UTF-16 code units and \<open>s.length\<close> counts code
  units, so a string is a list of 16-bit words. ASCII literals of the source are written
  with \<open>js\<close>.
\<close>

type_synonym jsstring = "16 word list"

definition js :: "string \<Rightarrow> jsstring" where
  "js s = map of_char s"

text \<open>
  \<open>Array.prototype.slice(start, end)\<close> and \<open>String.prototype.slice\<close>: a negative index
  counts from the end, both indices are clamped to the length, an absent \<open>end\<close> is the
  length.
\<close>

definition js_index :: "nat \<Rightarrow> int \<Rightarrow> nat" where
  "js_index len i = (if i < 0 then nat (max (int len + i) 0) else min (nat i) len)"

definition js_slice :: "int \<Rightarrow> int option \<Rightarrow> 'a list \<Rightarrow> 'a list" where
  "js_slice start end xs =
     (let len = length xs;
          from = js_index len start;
          to = (case end of None \<Rightarrow> len | Some e \<Rightarrow> js_index len e)
      in take (to - from) (drop from xs))"

section \<open>src/utils/truncate.js\<close>

text \<open>The ellipsis appended by \<open>truncateText\<close> is the single code unit U+2026.\<close>

definition ellipsis :: jsstring where
  "ellipsis = [0x2026]"

text \<open>
  \<open>truncateText(text, maxLength)\<close>: a falsy text (the empty string) is returned as it is,
  a text within the cap too; otherwise \<open>text.slice(0, maxLength) + ellipsis\<close>. Every call
  in the sources passes the cap, so its default of 2000 is not modelled.
\<close>

definition truncateText :: "jsstring \<Rightarrow> int \<Rightarrow> jsstring" where
  "truncateText text maxLength =
     (if text = [] then text
      else if int (length text) \<le> maxLength then text
      else js_slice 0 (Some maxLength) text @ ellipsis)"

section \<open>src/utils/promptBuilder.js\<close>

text \<open>\<open>Array.prototype.join\<close> on an array of strings.\<close>

fun js_join :: "jsstring \<Rightarrow> jsstring list \<Rightarrow> jsstring" where
  "js_join sep [] = []"
| "js_join sep [x] = x"
| "js_join sep (x # y # ys) = x @ sep @ js_join sep (y # ys)"

text \<open>
  The code units matched by \<open>\s\<close> in a regular expression, which are also the ones
  \<open>String.prototype.trim\<close> strips (white space and line terminators).
\<close>

definition is_space :: "16 word \<Rightarrow> bool" where
  "is_space c \<longleftrightarrow>
     c \<in> {0x09, 0x0A, 0x0B, 0x0C, 0x0D, 0x20, 0xA0, 0x1680, 0x2028, 0x2029, 0x202F,
          0x205F, 0x3000, 0xFEFF}
     \<or> (0x2000 \<le> c \<and> c \<le> 0x200A)"

definition js_trim :: "jsstring \<Rightarrow> jsstring" where
  "js_trim s = rev (dropWhile is_space (rev (dropWhile is_space s)))"

text \<open>\<open>s.replace(/\s+/g, " ")\<close>: every maximal run of white space becomes one space.\<close>

fun collapse_run :: "bool \<Rightarrow> jsstring \<Rightarrow> jsstring" where
  "collapse_run in_run [] = []"
| "collapse_run in_run (c # cs) =
     (if is_space c then (if in_run then [] else [0x20]) @ collapse_run True cs
      else c # collapse_run False cs)"

definition collapse_spaces :: "jsstring \<Rightarrow> jsstring" where
  "collapse_spaces s = collapse_run False s"

text \<open>Decimal rendering of a number in a template literal (here an array index plus one).\<close>

fun nat_to_dec :: "nat \<Rightarrow> jsstring" where
  "nat_to_dec n =
     (if n < 10 then [of_nat (48 + n)]
      else nat_to_dec (n div 10) @ [of_nat (48 + n mod 10)])"

record hit =
  hit_title :: "jsstring option"
  hit_text :: "jsstring option"
  hit_url :: "jsstring option"

record msg =
  msg_id :: jsstring
  msg_role :: jsstring
  msg_text :: jsstring
  msg_ts :: int

text \<open>\<open>a || b\<close> on an optional string: an absent or empty \<open>a\<close> is falsy.\<close>

definition or_else :: "jsstring option \<Rightarrow> jsstring \<Rightarrow> jsstring" where
  "or_else a b = (case a of None \<Rightarrow> b | Some s \<Rightarrow> if s = [] then b else s)"

definition DEFAULT_SYSTEM :: jsstring where
  "DEFAULT_SYSTEM = js (
     ''You are a helpful assistant. '' @ [CHR 0x0A] @
     ''Use ONLY the information from the '' @ [CHR 0x22] @ ''Retrieved Passages'' @ [CHR 0x22] @
     '' below to answer the user'' @ [CHR 0x27] @ ''s question. '' @ [CHR 0x0A] @
     ''- If the requested information is present in the sources, answer concisely from the sources and elaborate it if necessary. Write the source in a new line (For Ex: Source : article link). '' @ [CHR 0x0A] @
     ''- If the information is not present, reply appropriately with appropriate disclaimers ('' @
     [CHR 0x22] @ ''based on the provided sources'' @ [CHR 0x22] @ '', '' @
     [CHR 0x22] @ ''the sources do not mention'' @ [CHR 0x22] @ '', etc.).'' @ [CHR 0x0A] @
     ''- Do not invent facts or rely on prior knowledge outside the sources.'')"

definition nl :: jsstring where
  "nl = [0x0A]"

definition nlnl :: jsstring where
  "nlnl = [0x0A, 0x0A]"

definition hdr_passages :: jsstring where
  "hdr_passages = js ''--- Retrieved Passages ---''"

definition hdr_conversation :: jsstring where
  "hdr_conversation = js ''--- Conversation ---''"

definition hdr_question :: jsstring where
  "hdr_question = js ''--- Question ---''"

text \<open>The callback of \<open>hits.map\<close>: one labelled block per hit, \<open>i\<close> the array index.\<close>

definition format_hit :: "nat \<Rightarrow> hit \<Rightarrow> jsstring" where
  "format_hit i h =
     (let title = or_else (hit_title h) (js ''source-'' @ nat_to_dec (i + 1));
          snippet = js_slice 0 (Some 1000) (or_else (hit_text h) []);
          url = or_else (hit_url h) []
      in js ''### Source: '' @ title @ nl @ snippet @ nl @ js ''URL: '' @ url @ nl)"

fun map_index :: "(nat \<Rightarrow> 'a \<Rightarrow> 'b) \<Rightarrow> nat \<Rightarrow> 'a list \<Rightarrow> 'b list" where
  "map_index f i [] = []"
| "map_index f i (x # xs) = f i x # map_index f (Suc i) xs"

definition format_retrievals :: "hit list \<Rightarrow> jsstring" where
  "format_retrievals hs = js_join nl (map_index format_hit 0 hs)"

text \<open>
  The callback of \<open>recentMessages.slice(-8).map\<close>. \<open>String.prototype.toUpperCase\<close> is
  the Unicode mapping of the runtime; it is taken as the parameter \<open>toUpperCase\<close>.
\<close>

definition format_message :: "(jsstring \<Rightarrow> jsstring) \<Rightarrow> msg \<Rightarrow> jsstring" where
  "format_message toUpperCase m =
     (let role = or_else (Some (msg_role m)) (js ''user'');
          txt = js_trim (collapse_spaces (or_else (Some (msg_text m)) []))
      in toUpperCase role @ js '': '' @ truncateText txt 800)"

definition format_convo :: "(jsstring \<Rightarrow> jsstring) \<Rightarrow> msg list \<Rightarrow> jsstring" where
  "format_convo toUpperCase ms =
     js_join nl (map (format_message toUpperCase) (js_slice (- 8) None ms))"

record prompt_args =
  system :: "jsstring option"
  recentMessages :: "msg list option"
  hits :: "hit list option"
  question :: jsstring
  maxContextChars :: "int option"

text \<open>The first assembly: a section is pushed only when its body is not empty.\<close>

definition promptParts :: "jsstring \<Rightarrow> jsstring \<Rightarrow> jsstring \<Rightarrow> jsstring \<Rightarrow> jsstring list" where
  "promptParts sys retrievals convo q =
     (if sys \<noteq> [] then [sys] else [])
     @ (if retrievals \<noteq> [] then [hdr_passages, retrievals] else [])
     @ (if convo \<noteq> [] then [hdr_conversation, convo] else [])
     @ [hdr_question, js_trim q]"

text \<open>The defaults of the destructured parameter of \<open>buildPrompt\<close>.\<close>

definition arg_system :: "prompt_args \<Rightarrow> jsstring" where
  "arg_system a = (case system a of None \<Rightarrow> DEFAULT_SYSTEM | Some s \<Rightarrow> s)"

definition arg_recentMessages :: "prompt_args \<Rightarrow> msg list" where
  "arg_recentMessages a = (case recentMessages a of None \<Rightarrow> [] | Some ms \<Rightarrow> ms)"

definition arg_hits :: "prompt_args \<Rightarrow> hit list" where
  "arg_hits a = (case hits a of None \<Rightarrow> [] | Some hs \<Rightarrow> hs)"

definition arg_maxContextChars :: "prompt_args \<Rightarrow> int" where
  "arg_maxContextChars a = (case maxContextChars a of None \<Rightarrow> 5000 | Some n \<Rightarrow> n)"

text \<open>The locals \<open>retrievals\<close>, \<open>convo\<close> and the first value of \<open>full\<close>.\<close>

definition retrievals :: "prompt_args \<Rightarrow> jsstring" where
  "retrievals a = format_retrievals (arg_hits a)"

definition convo :: "(jsstring \<Rightarrow> jsstring) \<Rightarrow> prompt_args \<Rightarrow> jsstring" where
  "convo toUpperCase a = format_convo toUpperCase (arg_recentMessages a)"

definition full :: "(jsstring \<Rightarrow> jsstring) \<Rightarrow> prompt_args \<Rightarrow> jsstring" where
  "full toUpperCase a =
     js_join nlnl (promptParts (arg_system a) (retrievals a) (convo toUpperCase a) (question a))"

text \<open>The cap handed to \<open>truncateText\<close> for the retrieval block.\<close>

definition retrievals_cap :: "(jsstring \<Rightarrow> jsstring) \<Rightarrow> prompt_args \<Rightarrow> int" where
  "retrievals_cap toUpperCase a =
     max 0 (arg_maxContextChars a
            - (int (length (full toUpperCase a)) - int (length (retrievals a))))"

text \<open>
  \<open>buildPrompt\<close>. When the first assembly is longer than \<open>maxContextChars\<close>, the
  prompt is rebuilt from all seven parts, with the retrieval block cut by
  \<open>truncateText\<close> and the question as it was passed.
\<close>

definition buildPrompt :: "(jsstring \<Rightarrow> jsstring) \<Rightarrow> prompt_args \<Rightarrow> jsstring" where
  "buildPrompt toUpperCase a =
     (if int (length (full toUpperCase a)) > arg_maxContextChars a
      then
        (let truncatedRetrievals = truncateText (retrievals a) (retrievals_cap toUpperCase a)
         in js_join nlnl
              [arg_system a, hdr_passages, truncatedRetrievals, hdr_conversation,
               convo toUpperCase a, hdr_question, question a])
      else full toUpperCase a)"

text \<open>The ASCII part of \<open>toUpperCase\<close>, for evaluating \<open>buildPrompt\<close> on concrete input.\<close>

definition ascii_upper :: "jsstring \<Rightarrow> jsstring" where
  "ascii_upper s = map (\<lambda>c. if 0x61 \<le> c \<and> c \<le> 0x7A then c - 0x20 else c) s"


section \<open>src/services/sessionStore.js\<close>

subsection \<open>The hot tier: Redis\<close>

text \<open>
  The store uses three kinds of Redis keys: the list \<open>session:messages:<id>\<close>, the hash
  \<open>session:meta:<id>\<close> and the sorted set \<open>sessions:list\<close>. The three key shapes never
  coincide, so the database is modelled as three components indexed by session id. A list
  key exists exactly when its list is not empty, and a hash key when it has a field, as in
  Redis. The list elements are the \<open>JSON.stringify\<close> payloads of messages; since
  \<open>JSON.parse\<close> gives back the four string fields, an element is modelled as the message.
  Timestamps are milliseconds since the epoch; their ISO-8601 rendering is not modelled.

  The list of a session expires: \<open>EXPIRE\<close> gives the key a deadline, and a command that
  reaches the key after the deadline finds no key. Every command on the list therefore
  takes the time at which it runs, which is the clock reading of the call (the clock of
  the Redis server is taken to agree with it). The hash and the sorted set are given
  deadlines by the source in the same way; their deadlines are not modelled, and no
  property below depends on what is read from them after a deadline.
\<close>

record meta_hash =
  h_id :: "jsstring option"
  h_title :: "jsstring option"
  h_createdAt :: "int option"
  h_updatedAt :: "int option"
  h_msgCount :: "int option"

definition no_hash :: meta_hash where
  "no_hash = \<lparr>h_id = None, h_title = None, h_createdAt = None, h_updatedAt = None,
     h_msgCount = None\<rparr>"

record redis_db =
  messages_list :: "jsstring \<Rightarrow> msg list"
  messages_expiry :: "jsstring \<Rightarrow> int option"
  meta :: "jsstring \<Rightarrow> meta_hash"
  sessions_zset :: "(jsstring \<times> int) list"

text \<open>
  The index range of \<open>LRANGE\<close>, \<open>LTRIM\<close> and \<open>ZREVRANGE\<close>: both ends inclusive, a
  negative index counts from the end.
\<close>

definition redis_range :: "int \<Rightarrow> int \<Rightarrow> 'a list \<Rightarrow> 'a list" where
  "redis_range start stop xs =
     (let llen = int (length xs);
          s0 = (if start < 0 then llen + start else start);
          e0 = (if stop < 0 then llen + stop else stop);
          s = (if s0 < 0 then 0 else s0)
      in if s > e0 \<or> s \<ge> llen then []
         else (let e = (if e0 \<ge> llen then llen - 1 else e0)
               in take (nat (e + 1 - s)) (drop (nat s) xs)))"

text \<open>
  A key is expired once the time is past its deadline. The list a command finds under a
  key is the stored one, or none when the key is expired; a key without a list has no
  deadline.
\<close>

definition expired :: "int \<Rightarrow> int option \<Rightarrow> bool" where
  "expired now deadline = (case deadline of None \<Rightarrow> False | Some t \<Rightarrow> now > t)"

definition live_list :: "int \<Rightarrow> jsstring \<Rightarrow> redis_db \<Rightarrow> msg list" where
  "live_list now sid db =
     (if expired now (messages_expiry db sid) then [] else messages_list db sid)"

definition live_expiry :: "int \<Rightarrow> jsstring \<Rightarrow> redis_db \<Rightarrow> int option" where
  "live_expiry now sid db =
     (if live_list now sid db = [] then None else messages_expiry db sid)"

definition set_list :: "jsstring \<Rightarrow> msg list \<Rightarrow> int option \<Rightarrow> redis_db \<Rightarrow> redis_db" where
  "set_list sid xs deadline db =
     db\<lparr>messages_list := (messages_list db)(sid := xs),
        messages_expiry := (messages_expiry db)(sid := if xs = [] then None else deadline)\<rparr>"

text \<open>\<open>RPUSH\<close> and \<open>LTRIM\<close> keep the deadline of a key that exists.\<close>

definition rpush :: "int \<Rightarrow> jsstring \<Rightarrow> msg list \<Rightarrow> redis_db \<Rightarrow> redis_db" where
  "rpush now sid payloads db =
     set_list sid (live_list now sid db @ payloads) (live_expiry now sid db) db"

definition ltrim :: "int \<Rightarrow> jsstring \<Rightarrow> int \<Rightarrow> int \<Rightarrow> redis_db \<Rightarrow> redis_db" where
  "ltrim now sid start stop db =
     set_list sid (redis_range start stop (live_list now sid db)) (live_expiry now sid db) db"

definition lrange :: "int \<Rightarrow> jsstring \<Rightarrow> int \<Rightarrow> int \<Rightarrow> redis_db \<Rightarrow> msg list" where
  "lrange now sid start stop db = redis_range start stop (live_list now sid db)"

definition exists_list :: "int \<Rightarrow> jsstring \<Rightarrow> redis_db \<Rightarrow> bool" where
  "exists_list now sid db \<longleftrightarrow> live_list now sid db \<noteq> []"

definition del_list :: "jsstring \<Rightarrow> redis_db \<Rightarrow> redis_db" where
  "del_list sid db = set_list sid [] None db"

text \<open>
  \<open>EXPIRE key seconds\<close> on the list of a session: nothing without a key, the key is
  deleted for a time to live that is not positive, and otherwise the deadline is the
  time of the command plus the time to live.
\<close>

definition expire_list :: "int \<Rightarrow> int \<Rightarrow> jsstring \<Rightarrow> redis_db \<Rightarrow> redis_db" where
  "expire_list now ttl sid db =
     (if live_list now sid db = [] then db
      else if ttl \<le> 0 then del_list sid db
      else set_list sid (live_list now sid db) (Some (now + ttl * 1000)) db)"

text \<open>\<open>HSET key {id, title, createdAt, updatedAt, msgCount}\<close>: all five fields are set.\<close>

definition hset_all ::
  "jsstring \<Rightarrow> jsstring \<Rightarrow> jsstring \<Rightarrow> int \<Rightarrow> int \<Rightarrow> int \<Rightarrow> redis_db \<Rightarrow> redis_db" where
  "hset_all sid ident ttl created updated cnt db =
     db\<lparr>meta := (meta db)(sid := \<lparr>h_id = Some ident, h_title = Some ttl,
            h_createdAt = Some created, h_updatedAt = Some updated, h_msgCount = Some cnt\<rparr>)\<rparr>"

definition hset_updatedAt :: "jsstring \<Rightarrow> int \<Rightarrow> redis_db \<Rightarrow> redis_db" where
  "hset_updatedAt sid t db = db\<lparr>meta := (meta db)(sid := (meta db sid)\<lparr>h_updatedAt := Some t\<rparr>)\<rparr>"

text \<open>\<open>HINCRBY key msgCount 1\<close>: an absent field counts as 0.\<close>

definition hincrby_msgCount :: "jsstring \<Rightarrow> redis_db \<Rightarrow> redis_db" where
  "hincrby_msgCount sid db =
     db\<lparr>meta := (meta db)(sid := (meta db sid)
            \<lparr>h_msgCount := Some ((case h_msgCount (meta db sid) of None \<Rightarrow> 0 | Some c \<Rightarrow> c) + 1)\<rparr>)\<rparr>"

definition zadd :: "int \<Rightarrow> jsstring \<Rightarrow> redis_db \<Rightarrow> redis_db" where
  "zadd sc member db =
     db\<lparr>sessions_zset := (member, sc) # filter (\<lambda>e. fst e \<noteq> member) (sessions_zset db)\<rparr>"

text \<open>
  \<open>ZREVRANGE\<close>: members by descending score, members of equal score in descending
  lexicographic order (compared here by code units).
\<close>

fun str_le :: "jsstring \<Rightarrow> jsstring \<Rightarrow> bool" where
  "str_le [] ys = True"
| "str_le (x # xs) [] = False"
| "str_le (x # xs) (y # ys) = (x < y \<or> (x = y \<and> str_le xs ys))"

definition z_ge :: "jsstring \<times> int \<Rightarrow> jsstring \<times> int \<Rightarrow> bool" where
  "z_ge a b \<longleftrightarrow> snd a > snd b \<or> (snd a = snd b \<and> str_le (fst b) (fst a))"

fun z_insert :: "jsstring \<times> int \<Rightarrow> (jsstring \<times> int) list \<Rightarrow> (jsstring \<times> int) list" where
  "z_insert a [] = [a]"
| "z_insert a (b # bs) = (if z_ge a b then a # b # bs else b # z_insert a bs)"

definition zrevrange :: "int \<Rightarrow> int \<Rightarrow> redis_db \<Rightarrow> jsstring list" where
  "zrevrange start stop db =
     map fst (redis_range start stop (foldr z_insert (sessions_zset db) []))"

subsection \<open>The durable tier: Postgres through Prisma\<close>

text \<open>
  The Prisma schema is not part of the sources; the two tables are modelled with the
  columns the store reads and writes. Whether a command succeeds (connection, constraints)
  is decided by the environment of the call.
\<close>

record session_row =
  s_id :: jsstring
  s_createdAt :: int

record transcript =
  t_id :: jsstring
  t_sessionId :: jsstring
  t_role :: jsstring
  t_content :: jsstring
  t_createdAt :: int

record prisma_db =
  session_table :: "session_row list"
  transcript_table :: "transcript list"

text \<open>\<open>session.upsert\<close> with an empty update: an existing row is left as it is.\<close>

definition session_upsert :: "jsstring \<Rightarrow> int \<Rightarrow> prisma_db \<Rightarrow> prisma_db" where
  "session_upsert sid created db =
     (if sid \<in> s_id ` set (session_table db) then db
      else db\<lparr>session_table := session_table db @ [\<lparr>s_id = sid, s_createdAt = created\<rparr>]\<rparr>)"

definition transcript_create :: "transcript \<Rightarrow> prisma_db \<Rightarrow> prisma_db" where
  "transcript_create row db = db\<lparr>transcript_table := transcript_table db @ [row]\<rparr>"

text \<open>
  \<open>transcript.findMany({where: {sessionId}, orderBy: {createdAt: 'asc'}})\<close>. Rows of equal
  \<open>createdAt\<close> are returned in insertion order here; the database does not promise that.
\<close>

definition transcript_findMany :: "jsstring \<Rightarrow> prisma_db \<Rightarrow> transcript list" where
  "transcript_findMany sid db =
     sort_key t_createdAt (filter (\<lambda>r. t_sessionId r = sid) (transcript_table db))"

text \<open>\<open>take: n\<close> of Prisma: the first \<open>n\<close> rows, for a negative \<open>n\<close> the last \<open>-n\<close>.\<close>

definition prisma_take :: "int \<Rightarrow> 'a list \<Rightarrow> 'a list" where
  "prisma_take n xs = (if n \<ge> 0 then take (nat n) xs else drop (length xs - nat (- n)) xs)"

definition session_findMany :: "int \<Rightarrow> prisma_db \<Rightarrow> (session_row \<times> int) list" where
  "session_findMany limit db =
     map (\<lambda>s. (s, int (length (filter (\<lambda>r. t_sessionId r = s_id s) (transcript_table db)))))
       (prisma_take limit (rev (sort_key s_createdAt (session_table db))))"

subsection \<open>The store\<close>

record store =
  redis :: redis_db
  prisma :: prisma_db

text \<open>
  What a call takes from outside: the value \<open>uuidv4()\<close> returns, the clock reading (the
  same for every reading within the call), and whether each tier is usable during the
  call. A tier that is not usable is a client that is \<open>null\<close> (Redis not configured,
  Prisma not importable) or one whose commands throw; the store treats both alike: every
  command sits in a \<open>try\<close> whose \<open>catch\<close> goes on to the next tier, so the branch
  \<open>if redis_up e\<close> below is both the test \<open>if (redis)\<close> and the \<open>try\<close> that
  succeeds. A tier is usable for a whole call or for none of it.
\<close>

record env =
  uuidv4 :: jsstring
  Date_now :: int
  redis_up :: bool
  prisma_up :: bool

text \<open>
  A \<open>Date\<close> holds a time value of at most 8.64e15 milliseconds either side of the epoch;
  \<open>new Date(t)\<close> for any other \<open>t\<close> is an invalid date, on which \<open>toISOString()\<close> throws
  a \<open>RangeError\<close>. \<open>Date.now()\<close> and \<open>new Date()\<close> give a time value: the clock
  reading of a call is the field \<open>Date_now\<close>, kept within that range.
\<close>

definition MAX_TIME :: int where
  "MAX_TIME = 8640000000000000"

definition valid_time :: "int \<Rightarrow> bool" where
  "valid_time t \<longleftrightarrow> - MAX_TIME \<le> t \<and> t \<le> MAX_TIME"

definition clock :: "env \<Rightarrow> int" where
  "clock e = max (- MAX_TIME) (min MAX_TIME (Date_now e))"

record jserror =
  err_name :: jsstring
  err_message :: jsstring

definition RangeError :: jserror where
  "RangeError = \<lparr>err_name = js ''RangeError'', err_message = js ''Invalid time value''\<rparr>"

text \<open>The argument shapes \<open>createSession\<close> accepts.\<close>

record create_opts =
  o_id :: "jsstring option"
  o_title :: "jsstring option"
  o_createdAt :: "int option"

definition empty_opts :: create_opts where
  "empty_opts = \<lparr>o_id = None, o_title = None, o_createdAt = None\<rparr>"

datatype jsarg = AUndefined | ANull | AStr jsstring | AObj create_opts

definition truthy_arg :: "jsarg \<Rightarrow> bool" where
  "truthy_arg a = (case a of AUndefined \<Rightarrow> False | ANull \<Rightarrow> False | AStr s \<Rightarrow> s \<noteq> []
                   | AObj _ \<Rightarrow> True)"

text \<open>\<open>arg2 || {}\<close>, read as options: a string has none of the option fields.\<close>

definition opts_or_empty :: "jsarg \<Rightarrow> create_opts" where
  "opts_or_empty a = (case a of AObj opts \<Rightarrow> opts | _ \<Rightarrow> empty_opts)"

definition normalizeCreateArgs :: "jsarg \<Rightarrow> jsarg \<Rightarrow> jsstring option \<times> create_opts" where
  "normalizeCreateArgs arg1 arg2 =
     (case arg1 of
        AObj opts \<Rightarrow> if \<not> truthy_arg arg2 then (None, opts) else (None, opts_or_empty arg2)
      | AStr s \<Rightarrow> (Some s, opts_or_empty arg2)
      | _ \<Rightarrow> (None, opts_or_empty arg2))"

record config =
  SESSION_TTL_SECONDS :: int
  MAX_MESSAGES_REDIS :: int
  RAG_TOPK :: int
  RAG_MAX_SOURCES :: int
  MAX_CONTEXT_CHARS :: int

text \<open>The Redis writes of \<open>createSession\<close>, the same in both of its branches.\<close>

definition create_populate :: "env \<Rightarrow> jsstring \<Rightarrow> create_opts \<Rightarrow> int \<Rightarrow> redis_db \<Rightarrow> redis_db" where
  "create_populate e sid opts createdAt db =
     zadd (clock e) sid
       (hset_all sid sid (or_else (o_title opts) []) createdAt createdAt 0 db)"

text \<open>
  \<open>createSession(arg1 = null, arg2 = {})\<close>: an argument that is not passed takes its
  default before \<open>normalizeCreateArgs\<close> sees it. With a \<open>createdAt\<close> option that is not a
  time value the date is invalid: the upsert rejects it, \<open>createdAt.toISOString()\<close> throws
  inside the \<open>try\<close> of the Redis branch before any command is sent, and the id is
  returned with nothing written.
\<close>

definition createSession :: "env \<Rightarrow> jsarg \<Rightarrow> jsarg \<Rightarrow> store \<Rightarrow> jsstring \<times> store" where
  "createSession e arg1 arg2 st =
     (let a1 = (if arg1 = AUndefined then ANull else arg1);
          a2 = (if arg2 = AUndefined then AObj empty_opts else arg2);
          (ident, opts) = normalizeCreateArgs a1 a2;
          sid = or_else ident (uuidv4 e);
          createdAt = (case o_createdAt opts of None \<Rightarrow> clock e
                       | Some t \<Rightarrow> if t \<noteq> 0 then t else clock e)
      in if \<not> valid_time createdAt then (sid, st)
         else if prisma_up e then
           (let st1 = st\<lparr>prisma := session_upsert sid createdAt (prisma st)\<rparr>
            in if redis_up e
               then (sid, st1\<lparr>redis := create_populate e sid opts createdAt (redis st1)\<rparr>)
               else (sid, st1))
         else if redis_up e
           then (sid, st\<lparr>redis := create_populate e sid opts createdAt (redis st)\<rparr>)
         else (sid, st))"

text \<open>The message object handed to \<open>appendMessage\<close>; every field may be missing.\<close>

record msg_in =
  in_id :: "jsstring option"
  in_role :: "jsstring option"
  in_text :: "jsstring option"
  in_ts :: "int option"

text \<open>
  The timestamp a message passes is in range when it is absent, 0 (falsy, so the clock is
  read instead) or a time value.
\<close>

definition ts_in_range :: "msg_in \<Rightarrow> bool" where
  "ts_in_range message =
     (case in_ts message of None \<Rightarrow> True | Some t \<Rightarrow> t = 0 \<or> valid_time t)"

text \<open>
  The object \<open>msg\<close> built first by \<open>appendMessage\<close>, outside every \<open>try\<close>:
  \<open>new Date(message.ts).toISOString()\<close> throws for a timestamp that is not a time value.
\<close>

definition make_msg :: "env \<Rightarrow> msg_in \<Rightarrow> jserror + msg" where
  "make_msg e message =
     (if \<not> ts_in_range message then Inl RangeError
      else Inr \<lparr>msg_id = or_else (in_id message) (uuidv4 e),
                msg_role = or_else (in_role message) (js ''user''),
                msg_text = or_else (in_text message) [],
                msg_ts = (case in_ts message of None \<Rightarrow> clock e
                          | Some t \<Rightarrow> if t \<noteq> 0 then t else clock e)\<rparr>)"

text \<open>
  The Redis commands of \<open>appendMessage\<close> in their order; the \<open>EXPIRE\<close> of the list renews
  its deadline.
\<close>

definition append_redis :: "config \<Rightarrow> env \<Rightarrow> jsstring \<Rightarrow> msg \<Rightarrow> redis_db \<Rightarrow> redis_db" where
  "append_redis cfg e sessionId m db =
     zadd (clock e) sessionId
       (hset_updatedAt sessionId (clock e)
          (hincrby_msgCount sessionId
             (expire_list (clock e) (SESSION_TTL_SECONDS cfg) sessionId
                (ltrim (clock e) sessionId (- MAX_MESSAGES_REDIS cfg) (- 1)
                   (rpush (clock e) sessionId [m] db)))))"

definition appendMessage ::
  "config \<Rightarrow> env \<Rightarrow> jsstring \<Rightarrow> msg_in \<Rightarrow> store \<Rightarrow> jserror + (jsstring \<times> msg) \<times> store" where
  "appendMessage cfg e sessionId message st =
     (case make_msg e message of
        Inl err \<Rightarrow> Inl err
      | Inr m \<Rightarrow>
          (let st1 = (if prisma_up e
                      then st\<lparr>prisma := transcript_create
                             \<lparr>t_id = msg_id m, t_sessionId = sessionId, t_role = msg_role m,
                              t_content = msg_text m, t_createdAt = msg_ts m\<rparr> (prisma st)\<rparr>
                      else st)
           in if redis_up e
              then Inr ((sessionId, m),
                        st1\<lparr>redis := append_redis cfg e sessionId m (redis st1)\<rparr>)
              else Inr ((sessionId, m), st1)))"

text \<open>\<open>if (limit && xs.length > limit) xs = xs.slice(-limit)\<close>: a limit of 0 is falsy.\<close>

definition apply_limit :: "int \<Rightarrow> 'a list \<Rightarrow> 'a list" where
  "apply_limit limit xs =
     (if limit \<noteq> 0 \<and> int (length xs) > limit then js_slice (- limit) None xs else xs)"

definition row_to_msg :: "transcript \<Rightarrow> msg" where
  "row_to_msg r = \<lparr>msg_id = t_id r, msg_role = t_role r, msg_text = t_content r,
     msg_ts = t_createdAt r\<rparr>"

text \<open>The Redis writes of \<open>getMessages\<close> after a read from the durable tier.\<close>

definition repopulate :: "config \<Rightarrow> env \<Rightarrow> jsstring \<Rightarrow> msg list \<Rightarrow> redis_db \<Rightarrow> redis_db" where
  "repopulate cfg e sessionId docs db =
     zadd (clock e) sessionId
       (hset_all sessionId sessionId [] (msg_ts (hd docs)) (msg_ts (last docs))
          (int (length docs))
          (expire_list (clock e) (SESSION_TTL_SECONDS cfg) sessionId
             (rpush (clock e) sessionId docs (del_list sessionId db))))"

text \<open>
  \<open>getMessages\<close>: the list is served when Redis finds its key, and serving it renews the
  deadline of the key; an expired key is a miss like a key never written.
\<close>

definition getMessages ::
  "config \<Rightarrow> env \<Rightarrow> jsstring \<Rightarrow> int option \<Rightarrow> store \<Rightarrow> msg list \<times> store" where
  "getMessages cfg e sessionId limit st =
     (let lim = (case limit of None \<Rightarrow> 1000 | Some l \<Rightarrow> l)
      in if redis_up e \<and> exists_list (clock e) sessionId (redis st)
         then (apply_limit lim (lrange (clock e) sessionId 0 (- 1) (redis st)),
               st\<lparr>redis := zadd (clock e) sessionId
                        (expire_list (clock e) (SESSION_TTL_SECONDS cfg) sessionId (redis st))\<rparr>)
         else if prisma_up e then
           (let docs = map row_to_msg (transcript_findMany sessionId (prisma st));
                st1 = (if redis_up e \<and> docs \<noteq> []
                       then st\<lparr>redis := repopulate cfg e sessionId docs (redis st)\<rparr> else st)
            in (apply_limit lim docs, st1))
         else ([], st))"

record summary =
  sum_id :: "jsstring option"
  sum_title :: "jsstring option"
  sum_createdAt :: "int option"
  sum_updatedAt :: "int option"
  sum_msgCount :: int

definition hash_summary :: "meta_hash \<Rightarrow> summary" where
  "hash_summary m =
     \<lparr>sum_id = h_id m,
      sum_title = (case h_title m of None \<Rightarrow> None | Some t \<Rightarrow> if t = [] then None else Some t),
      sum_createdAt = h_createdAt m,
      sum_updatedAt = h_updatedAt m,
      sum_msgCount = (case h_msgCount m of None \<Rightarrow> 0 | Some c \<Rightarrow> c)\<rparr>"

definition row_summary :: "session_row \<times> int \<Rightarrow> summary" where
  "row_summary sc =
     \<lparr>sum_id = Some (s_id (fst sc)), sum_title = None,
      sum_createdAt = Some (s_createdAt (fst sc)), sum_updatedAt = Some (s_createdAt (fst sc)),
      sum_msgCount = snd sc\<rparr>"

definition list_populate :: "env \<Rightarrow> (session_row \<times> int) list \<Rightarrow> redis_db \<Rightarrow> redis_db" where
  "list_populate e sessions db =
     fold (\<lambda>sc d.
            zadd (if s_createdAt (fst sc) \<noteq> 0 then s_createdAt (fst sc) else clock e)
              (s_id (fst sc))
              (hset_all (s_id (fst sc)) (s_id (fst sc)) [] (s_createdAt (fst sc))
                 (s_createdAt (fst sc)) (snd sc) d))
       sessions db"

definition listSessions :: "env \<Rightarrow> int option \<Rightarrow> store \<Rightarrow> summary list \<times> store" where
  "listSessions e limit st =
     (let lim = (case limit of None \<Rightarrow> 200 | Some l \<Rightarrow> l);
          ids = (if redis_up e then zrevrange 0 (lim - 1) (redis st) else [])
      in if redis_up e \<and> ids \<noteq> []
         then (map (\<lambda>i. hash_summary (meta (redis st) i)) ids, st)
         else if prisma_up e then
           (let sessions = session_findMany lim (prisma st);
                st1 = (if redis_up e
                       then st\<lparr>redis := list_populate e sessions (redis st)\<rparr> else st)
            in (map row_summary sessions, st1))
         else ([], st))"

section \<open>src/routes/chat.js\<close>

text \<open>The key of a hit: \<open>(h.url || h.title || "").trim()\<close>.\<close>

definition hit_key :: "hit \<Rightarrow> jsstring" where
  "hit_key h = js_trim (or_else (hit_url h) (or_else (hit_title h) []))"

text \<open>The loop of \<open>dedupeHits\<close>, with its locals \<open>seen\<close> and \<open>out\<close>.\<close>

fun dedupe_loop :: "jsstring set \<Rightarrow> hit list \<Rightarrow> hit list \<Rightarrow> hit list" where
  "dedupe_loop seen out [] = out"
| "dedupe_loop seen out (h # hs) =
     (let key = hit_key h
      in if key = [] then dedupe_loop seen out hs
         else if key \<in> seen then dedupe_loop seen out hs
         else dedupe_loop (insert key seen) (out @ [h]) hs)"

definition dedupeHits :: "hit list \<Rightarrow> hit list" where
  "dedupeHits hs = dedupe_loop {} [] hs"

text \<open>An absent or blank field: nothing is left of it after \<open>trim\<close>.\<close>

definition blank :: "jsstring option \<Rightarrow> bool" where
  "blank a = (case a of None \<Rightarrow> True | Some s \<Rightarrow> js_trim s = [])"

record source =
  src_title :: "jsstring option"
  src_url :: "jsstring option"

text \<open>\<open>x || null\<close> on an optional string.\<close>

definition or_null :: "jsstring option \<Rightarrow> jsstring option" where
  "or_null a = (case a of None \<Rightarrow> None | Some s \<Rightarrow> if s = [] then None else Some s)"

definition formatSources :: "hit list \<Rightarrow> int \<Rightarrow> source list" where
  "formatSources hs maxSources =
     map (\<lambda>h. \<lparr>src_title = or_null (hit_title h), src_url = or_null (hit_url h)\<rparr>)
       (js_slice 0 (Some maxSources) hs)"

text \<open>The values a request body field can hold, as far as the handler tells them apart.\<close>

datatype jsval = Undefined | Null | JBool bool | JNum int | JStr jsstring | JObject

record chat_body =
  b_sessionId :: "jsstring option"
  b_message :: jsval

text \<open>
  \<open>!message || typeof message !== "string"\<close> rejects everything but a non-empty string.
\<close>

definition valid_message :: "jsval \<Rightarrow> jsstring option" where
  "valid_message v = (case v of JStr s \<Rightarrow> if s = [] then None else Some s | _ \<Rightarrow> None)"

text \<open>\<open>err.message || String(err)\<close> and \<open>err.message || "internal error"\<close>.\<close>

definition err_toString :: "jserror \<Rightarrow> jsstring" where
  "err_toString err =
     (if err_name err = [] then err_message err
      else if err_message err = [] then err_name err
      else err_name err @ js '': '' @ err_message err)"

definition stream_error_text :: "jserror \<Rightarrow> jsstring" where
  "stream_error_text err = (if err_message err \<noteq> [] then err_message err else err_toString err)"

definition handler_error_text :: "jserror \<Rightarrow> jsstring" where
  "handler_error_text err = or_else (Some (err_message err)) (js ''internal error'')"

datatype event =
    SessionEv jsstring
  | MessageEv jsstring
  | DoneEv jsstring jsstring "source list"
  | ErrorEv jsstring

text \<open>
  What the client receives: a JSON response with a status, or the events written to the
  event stream in order, with whether \<open>res.end()\<close> was called.
\<close>

datatype response = JsonResponse nat jsstring | EventStream "event list" bool

text \<open>
  The world of a request: the store, and the calls made to the vector search and to the
  generation client.
\<close>

record world =
  w_store :: store
  search_log :: "(jsstring \<times> int) list"
  llm_log :: "jsstring list"

text \<open>
  The collaborators of a request. Each store call has its own environment, and
  \<open>fallback_uuid\<close> is the \<open>uuidv4()\<close> of the handler itself. \<open>search\<close> is
  \<open>vectorClient.search\<close>: it returns hits or throws. \<open>generateStream\<close> is
  \<open>llmClient.generateStream\<close>: for a prompt it calls \<open>onChunk\<close> on each chunk of the
  list in order, then resolves (\<open>None\<close>) or throws; the client of the source is one such
  function, throwing only before its first chunk.
\<close>

record chat_env =
  env_create :: env
  fallback_uuid :: jsstring
  env_user :: env
  env_recent :: env
  env_assistant :: env
  search :: "jsstring \<Rightarrow> int \<Rightarrow> jserror + hit list"
  generateStream :: "jsstring \<Rightarrow> jsstring list \<times> jserror option"
  toUpperCase :: "jsstring \<Rightarrow> jsstring"

text \<open>Resolving the session id: an absent or empty id creates a session.\<close>

definition resolve_session :: "chat_env \<Rightarrow> jsstring option \<Rightarrow> world \<Rightarrow> jsstring \<times> world" where
  "resolve_session ce incoming w =
     (case or_null incoming of
        Some sessionId \<Rightarrow> (sessionId, w)
      | None \<Rightarrow>
          (let (created, st1) =
                 createSession (env_create ce)
                   (AObj \<lparr>o_id = None, o_title = Some (js ''New chat''), o_createdAt = None\<rparr>)
                   AUndefined (w_store w)
           in (if created \<noteq> [] then created else fallback_uuid ce, w\<lparr>w_store := st1\<rparr>)))"

text \<open>
  The handler up to the prompt: session, user message, retrieval, sources, history,
  prompt. An exception of \<open>appendMessage\<close> or of the search leaves it; the outer
  \<open>catch\<close> turns it into a 500 response.
\<close>

definition chat_prepare ::
  "config \<Rightarrow> chat_env \<Rightarrow> jsstring option \<Rightarrow> jsstring \<Rightarrow> world
   \<Rightarrow> (jserror + jsstring \<times> source list \<times> jsstring) \<times> world" where
  "chat_prepare cfg ce incoming message w =
     (let (sessionId, w1) = resolve_session ce incoming w
      in case appendMessage cfg (env_user ce) sessionId
                \<lparr>in_id = None, in_role = Some (js ''user''), in_text = Some message,
                 in_ts = Some (clock (env_user ce))\<rparr> (w_store w1) of
           Inl err \<Rightarrow> (Inl err, w1)
         | Inr (appended, st2) \<Rightarrow>
             (let w2 = w1\<lparr>w_store := st2,
                           search_log := search_log w1 @ [(message, RAG_TOPK cfg)]\<rparr>
              in case search ce message (RAG_TOPK cfg) of
                   Inl err \<Rightarrow> (Inl err, w2)
                 | Inr rawHits \<Rightarrow>
                     (let hs = dedupeHits rawHits;
                          sources = formatSources hs (RAG_MAX_SOURCES cfg);
                          (recent, st3) =
                             getMessages cfg (env_recent ce) sessionId (Some 8) (w_store w2);
                          prompt = buildPrompt (toUpperCase ce)
                                     \<lparr>system = None, recentMessages = Some recent,
                                      hits = Some hs, question = message,
                                      maxContextChars = Some (MAX_CONTEXT_CHARS cfg)\<rparr>
                      in (Inr (sessionId, sources, prompt), w2\<lparr>w_store := st3\<rparr>))))"

text \<open>\<open>onChunk\<close>: the chunk joins the buffer and goes out as a \<open>message\<close> event.\<close>

definition onChunk :: "jsstring \<Rightarrow> jsstring \<times> event list \<Rightarrow> jsstring \<times> event list" where
  "onChunk chunk s = (fst s @ chunk, snd s @ [MessageEv chunk])"

text \<open>
  The streaming part: the \<open>session\<close> event, the chunks, then either the assistant message
  and the \<open>done\<close> event, or, in the inner \<open>catch\<close>, the \<open>error\<close> event. The inner
  \<open>try\<close> holds the \<open>appendMessage\<close> of the assistant too.
\<close>

definition chat_stream ::
  "config \<Rightarrow> chat_env \<Rightarrow> jsstring \<Rightarrow> source list \<Rightarrow> jsstring \<Rightarrow> world \<Rightarrow> response \<times> world" where
  "chat_stream cfg ce sessionId sources prompt w =
     (let (chunks, outcome) = generateStream ce prompt;
          w1 = w\<lparr>llm_log := llm_log w @ [prompt]\<rparr>;
          (assistantBuffer, evs) = fold onChunk chunks ([], [SessionEv sessionId])
      in case outcome of
           None \<Rightarrow>
             (case appendMessage cfg (env_assistant ce) sessionId
                     \<lparr>in_id = None, in_role = Some (js ''assistant''),
                      in_text = Some assistantBuffer,
                      in_ts = Some (clock (env_assistant ce))\<rparr> (w_store w1) of
                Inl err \<Rightarrow> (EventStream (evs @ [ErrorEv (stream_error_text err)]) True, w1)
              | Inr (appended, st1) \<Rightarrow>
                  (EventStream (evs @ [DoneEv sessionId assistantBuffer sources]) True,
                   w1\<lparr>w_store := st1\<rparr>))
         | Some err \<Rightarrow> (EventStream (evs @ [ErrorEv (stream_error_text err)]) True, w1))"

text \<open>\<open>router.post("/")\<close>; \<open>req.body || {}\<close> makes an absent body one without fields.\<close>

definition chat :: "config \<Rightarrow> chat_env \<Rightarrow> chat_body option \<Rightarrow> world \<Rightarrow> response \<times> world" where
  "chat cfg ce body w =
     (let b = (case body of None \<Rightarrow> \<lparr>b_sessionId = None, b_message = Undefined\<rparr>
               | Some b \<Rightarrow> b)
      in case valid_message (b_message b) of
           None \<Rightarrow> (JsonResponse 400 (js ''message (string) is required''), w)
         | Some message \<Rightarrow>
             (case chat_prepare cfg ce (b_sessionId b) message w of
                (Inl err, w1) \<Rightarrow> (JsonResponse 500 (handler_error_text err), w1)
              | (Inr (sessionId, sources, prompt), w1) \<Rightarrow>
                  chat_stream cfg ce sessionId sources prompt w1))"

text \<open>Concrete inputs of \<open>buildPrompt\<close> on which the properties below are evaluated.\<close>

definition ex_hit :: hit where
  "ex_hit = \<lparr>hit_title = None, hit_text = Some (js ''East.''), hit_url = None\<rparr>"

definition ex_msg :: msg where
  "ex_msg = \<lparr>msg_id = js ''m1'', msg_role = js ''user'', msg_text = js '' Sun  rise? '',
     msg_ts = 0\<rparr>"

definition ex_args :: "int \<Rightarrow> prompt_args" where
  "ex_args n = \<lparr>system = Some (js ''Be brief.''), recentMessages = Some [ex_msg],
     hits = Some [ex_hit], question = js ''Sun rise?'', maxContextChars = Some n\<rparr>"

definition long_question :: jsstring where
  "long_question = replicate 4500 0x61"

definition empty_args :: prompt_args where
  "empty_args = \<lparr>system = None, recentMessages = Some [], hits = Some [],
     question = long_question, maxContextChars = None\<rparr>"

text \<open>Concrete hits: two with the same URL, one without a source, one with a title only.\<close>

definition hit_a :: hit where
  "hit_a = \<lparr>hit_title = Some (js ''Fact A''), hit_text = Some (js ''East.''),
     hit_url = Some (js ''http://a'')\<rparr>"

definition hit_b :: hit where
  "hit_b = \<lparr>hit_title = Some (js ''  ''), hit_text = Some (js ''West.''), hit_url = None\<rparr>"

definition hit_c :: hit where
  "hit_c = \<lparr>hit_title = Some (js ''Fact C''), hit_text = Some (js ''North.''),
     hit_url = Some (js '' http://a '')\<rparr>"

definition hit_d :: hit where
  "hit_d = \<lparr>hit_title = Some (js ''Fact D''), hit_text = Some (js ''South.''),
     hit_url = Some []\<rparr>"

definition dup_hits :: "hit list" where
  "dup_hits = [hit_a, hit_b, hit_c, hit_d]"

text \<open>A store with nothing in either tier, and the world of a first request.\<close>

definition empty_store :: store where
  "empty_store =
     \<lparr>redis = \<lparr>messages_list = (\<lambda>_. []), messages_expiry = (\<lambda>_. None),
               meta = (\<lambda>_. no_hash), sessions_zset = []\<rparr>,
      prisma = \<lparr>session_table = [], transcript_table = []\<rparr>\<rparr>"

definition world0 :: world where
  "world0 = \<lparr>w_store = empty_store, search_log = [], llm_log = []\<rparr>"

definition cfg0 :: config where
  "cfg0 = \<lparr>SESSION_TTL_SECONDS = 86400, MAX_MESSAGES_REDIS = 500, RAG_TOPK = 4,
     RAG_MAX_SOURCES = 6, MAX_CONTEXT_CHARS = 5000\<rparr>"

definition env_at :: "jsstring \<Rightarrow> int \<Rightarrow> bool \<Rightarrow> bool \<Rightarrow> env" where
  "env_at u t r p = \<lparr>uuidv4 = u, Date_now = t, redis_up = r, prisma_up = p\<rparr>"

text \<open>
  The scenario of the specification: one passage is retrieved for the question and the
  generation yields two chunks; and the same request with a generation that throws after
  its first chunk.
\<close>

definition sun_hit :: hit where
  "sun_hit = \<lparr>hit_title = Some (js ''Fact A''),
     hit_text = Some (js ''The sun rises in the east.''), hit_url = None\<rparr>"

definition sun_body :: chat_body where
  "sun_body = \<lparr>b_sessionId = Some (js ''s1''),
     b_message = JStr (js ''Where does the sun rise?'')\<rparr>"

definition ce_ok :: chat_env where
  "ce_ok =
     \<lparr>env_create = env_at (js ''u0'') 1 True True, fallback_uuid = js ''u9'',
      env_user = env_at (js ''u1'') 2 True True, env_recent = env_at (js ''u2'') 3 True True,
      env_assistant = env_at (js ''u3'') 4 True True,
      search = (\<lambda>q k. Inr [sun_hit]),
      generateStream = (\<lambda>p. ([js ''The sun '', js ''rises in the east.''], None)),
      toUpperCase = ascii_upper\<rparr>"

definition gemini_error :: jserror where
  "gemini_error = \<lparr>err_name = js ''Error'', err_message = js ''Gemini API error''\<rparr>"

definition ce_fail :: chat_env where
  "ce_fail = ce_ok\<lparr>generateStream := (\<lambda>p. ([js ''The sun ''], Some gemini_error))\<rparr>"

text \<open>The object \<open>POST /sessions\<close> passes to \<open>createSession\<close>.\<close>

definition route_opts :: create_opts where
  "route_opts = \<lparr>o_id = Some (js ''route-id''), o_title = Some (js ''Chat''),
     o_createdAt = Some 5\<rparr>"

text \<open>
  A single caller appending to one session: the calls run one after the other, each with
  its own environment; an exception of a call ends the run, and otherwise the messages
  returned are collected in call order.
\<close>

fun append_all ::
  "config \<Rightarrow> jsstring \<Rightarrow> (env \<times> msg_in) list \<Rightarrow> store \<Rightarrow> jserror + msg list \<times> store" where
  "append_all cfg sid [] st = Inr ([], st)"
| "append_all cfg sid (c # cs) st =
     (case appendMessage cfg (fst c) sid (snd c) st of
        Inl err \<Rightarrow> Inl err
      | Inr (r, st1) \<Rightarrow>
          (case append_all cfg sid cs st1 of
             Inl err \<Rightarrow> Inl err
           | Inr (rs, st2) \<Rightarrow> Inr (snd r # rs, st2)))"












section \<open>Properties of \<open>truncateText\<close>\<close>

lemma js_slice_0_nonneg:
  "0 \<le> n \<Longrightarrow> js_slice 0 (Some n) xs = take (nat n) xs"
  by (simp add: js_slice_def js_index_def Let_def min_def)

text \<open>
  Claim C9. For a non-empty string \<open>s\<close> and a cap \<open>maxLength\<close> (a length, so a
  non-negative integer) below the length of \<open>s\<close>, \<open>truncateText\<close> returns the first
  \<open>maxLength\<close> code units of \<open>s\<close> followed by the ellipsis, a string of length
  \<open>maxLength + 1\<close>, one more than the cap. A string within the cap, and the empty
  string, are returned unchanged.
\<close>

theorem truncateText_exceeds_cap_by_one:
  "(s \<noteq> [] \<and> 0 \<le> maxLength \<and> maxLength < int (length s) \<longrightarrow>
      truncateText s maxLength = take (nat maxLength) s @ ellipsis
      \<and> int (length (truncateText s maxLength)) = maxLength + 1
      \<and> int (length (truncateText s maxLength)) > maxLength)
   \<and> (int (length s) \<le> maxLength \<or> s = [] \<longrightarrow> truncateText s maxLength = s)"
  by (auto simp: truncateText_def js_slice_0_nonneg ellipsis_def)

theorem truncateText_exceeds_cap_by_one_witness:
  "truncateText (js ''abcdef'') 3 = js ''abc'' @ ellipsis
   \<and> length (truncateText (js ''abcdef'') 3) = 4
   \<and> truncateText (js ''abc'') 3 = js ''abc''
   \<and> truncateText [] 3 = []"
  using truncateText_exceeds_cap_by_one [of "js ''abcdef''" 3]
        truncateText_exceeds_cap_by_one [of "js ''abc''" 3]
        truncateText_exceeds_cap_by_one [of "[]" 3]
  by (simp add: js_def ellipsis_def)

section \<open>Properties of \<open>buildPrompt\<close>\<close>

lemma buildPrompt_overflow:
  "arg_maxContextChars a < int (length (full up a)) \<Longrightarrow>
   buildPrompt up a =
     arg_system a @ nlnl @ hdr_passages @ nlnl
     @ truncateText (retrievals a) (retrievals_cap up a) @ nlnl
     @ hdr_conversation @ nlnl @ convo up a @ nlnl @ hdr_question @ nlnl @ question a"
  by (simp add: buildPrompt_def Let_def)

lemma retrievals_cap_less:
  "arg_maxContextChars a < int (length (full up a)) \<Longrightarrow> retrievals a \<noteq> [] \<Longrightarrow>
   0 \<le> retrievals_cap up a \<and> retrievals_cap up a < int (length (retrievals a))"
  by (auto simp: retrievals_cap_def max_def)

lemmas ex_eval = full_def convo_def retrievals_def arg_system_def arg_hits_def
  arg_recentMessages_def arg_maxContextChars_def retrievals_cap_def promptParts_def
  format_retrievals_def format_convo_def format_message_def format_hit_def or_else_def
  js_slice_def js_index_def js_trim_def collapse_spaces_def is_space_def truncateText_def
  hdr_passages_def hdr_conversation_def hdr_question_def nl_def nlnl_def ellipsis_def js_def
  ascii_upper_def ex_args_def ex_hit_def ex_msg_def Let_def

lemma ex_args_full: "length (full ascii_upper (ex_args n)) = 140"
  by (simp add: ex_eval)

lemma ex_args_retrievals: "length (retrievals (ex_args n)) = 33"
  by (simp add: ex_eval)

lemma ex_args_parts:
  "arg_maxContextChars (ex_args n) = n"
  "arg_system (ex_args n) = js ''Be brief.''"
  "question (ex_args n) = js ''Sun rise?''"
  by (simp_all add: arg_maxContextChars_def arg_system_def ex_args_def)

lemma length_js_trim: "length (js_trim s) \<le> length s"
proof -
  have "length (dropWhile is_space (rev (dropWhile is_space s)))
          \<le> length (rev (dropWhile is_space s))"
    by (rule length_dropWhile_le)
  also have "\<dots> \<le> length s"
    by (simp add: length_dropWhile_le)
  finally show ?thesis
    by (simp add: js_trim_def)
qed

lemma length_full:
  "length (full up a) =
     (if arg_system a \<noteq> [] then length (arg_system a) + 2 else 0)
     + (if retrievals a \<noteq> [] then length hdr_passages + 2 + length (retrievals a) + 2 else 0)
     + (if convo up a \<noteq> []
        then length hdr_conversation + 2 + length (convo up a) + 2 else 0)
     + length hdr_question + 2 + length (js_trim (question a))"
  by (simp add: full_def promptParts_def nlnl_def)

lemma length_buildPrompt_overflow:
  "arg_maxContextChars a < int (length (full up a)) \<Longrightarrow>
   length (buildPrompt up a) =
     length (arg_system a) + 2 + length hdr_passages + 2
     + length (truncateText (retrievals a) (retrievals_cap up a)) + 2
     + length hdr_conversation + 2 + length (convo up a) + 2
     + length hdr_question + 2 + length (question a)"
  by (simp add: buildPrompt_overflow nlnl_def)

text \<open>
  Whenever the first assembly is over the budget, so is the prompt returned: the cap
  handed to \<open>truncateText\<close> is what the budget leaves for the passages, and the ellipsis
  comes on top of it.
\<close>

lemma buildPrompt_truncation_exceeds:
  assumes over: "arg_maxContextChars a < int (length (full up a))"
  shows "arg_maxContextChars a < int (length (buildPrompt up a))"
proof (cases "retrievals a = []")
  case True
  then have "truncateText (retrievals a) (retrievals_cap up a) = []"
    by (simp add: truncateText_def)
  with True have "length (full up a) \<le> length (buildPrompt up a)"
    using length_js_trim [of "question a"]
    by (simp add: length_full length_buildPrompt_overflow [OF over])
  with over show ?thesis by linarith
next
  case False
  from retrievals_cap_less [OF over False]
  have c: "0 \<le> retrievals_cap up a" "retrievals_cap up a < int (length (retrievals a))"
    by simp_all
  then have t: "int (length (truncateText (retrievals a) (retrievals_cap up a)))
                  = retrievals_cap up a + 1"
    using False by (simp add: truncateText_def js_slice_0_nonneg ellipsis_def)
  have cap: "arg_maxContextChars a - (int (length (full up a)) - int (length (retrievals a)))
               \<le> retrievals_cap up a"
    by (simp add: retrievals_cap_def)
  have "int (length (full up a)) - int (length (retrievals a))
          \<le> int (length (buildPrompt up a))
             - int (length (truncateText (retrievals a) (retrievals_cap up a)))"
    using False length_js_trim [of "question a"]
    by (simp add: length_full length_buildPrompt_overflow [OF over])
  with t cap show ?thesis by linarith
qed

text \<open>
  Claim C1, evaluated where the code leaves it. The input has one hit, one message, a
  short preamble and question, and a budget of 120. The first assembly has 140 code
  units, 33 of them the passages block, so everything else takes 107 and the budget could
  be met by cutting the passages block alone. The prompt returned has 121 code units,
  one over the budget.
\<close>

theorem buildPrompt_overshoots_budget:
  "arg_maxContextChars (ex_args 120) = 120
   \<and> int (length (full ascii_upper (ex_args 120))) = 140
   \<and> int (length (retrievals (ex_args 120))) = 33
   \<and> int (length (buildPrompt ascii_upper (ex_args 120))) = 121"
proof -
  have over: "arg_maxContextChars (ex_args 120) < int (length (full ascii_upper (ex_args 120)))"
    by (simp add: ex_args_full ex_args_parts)
  have ne: "retrievals (ex_args 120) \<noteq> []"
    using ex_args_retrievals [of 120] by auto
  have cap: "retrievals_cap ascii_upper (ex_args 120) = 13"
    by (simp add: retrievals_cap_def ex_args_full ex_args_retrievals ex_args_parts)
  have t: "length (truncateText (retrievals (ex_args 120)) 13) = 14"
    using ne ex_args_retrievals [of 120]
    by (simp add: truncateText_def js_slice_0_nonneg ellipsis_def)
  have f: "length (full ascii_upper (ex_args 120)) = 140"
    by (rule ex_args_full)
  have cv: "convo ascii_upper (ex_args 120) \<noteq> []"
    by (simp add: ex_eval)
  have q: "js_trim (question (ex_args 120)) = question (ex_args 120)"
    by (simp add: ex_args_parts js_trim_def is_space_def js_def)
  have s: "arg_system (ex_args 120) \<noteq> []"
    by (simp add: ex_args_parts js_def)
  have "length (buildPrompt ascii_upper (ex_args 120)) = 121"
    using f ne cv s ex_args_retrievals [of 120]
    by (simp add: length_buildPrompt_overflow [OF over] cap t length_full q)
  then show ?thesis
    by (simp add: ex_args_full ex_args_retrievals ex_args_parts)
qed

lemma js_trim_no_space:
  "s \<noteq> [] \<Longrightarrow> \<not> is_space (hd s) \<Longrightarrow> \<not> is_space (last s) \<Longrightarrow> js_trim s = s"
proof -
  assume ne: "s \<noteq> []" and h: "\<not> is_space (hd s)" and l: "\<not> is_space (last s)"
  from ne h have d: "dropWhile is_space s = s"
    by (cases s) simp_all
  from ne l have "dropWhile is_space (rev s) = rev s"
    by (cases "rev s") (simp_all add: last_rev [symmetric] hd_rev)
  with d show ?thesis by (simp add: js_trim_def)
qed

lemma length_DEFAULT_SYSTEM: "length DEFAULT_SYSTEM = 537"
  by (simp add: DEFAULT_SYSTEM_def js_def)

lemma DEFAULT_SYSTEM_nonempty: "DEFAULT_SYSTEM \<noteq> []"
  using length_DEFAULT_SYSTEM by auto

lemma js_trim_long_question: "js_trim long_question = long_question"
proof (rule js_trim_no_space)
  show "long_question \<noteq> []" by (simp add: long_question_def)
  show "\<not> is_space (hd long_question)"
    by (simp add: long_question_def is_space_def)
  show "\<not> is_space (last long_question)"
    by (simp add: long_question_def is_space_def)
qed

lemma full_empty_args:
  "full up empty_args = DEFAULT_SYSTEM @ nlnl @ hdr_question @ nlnl @ long_question"
  by (simp add: full_def empty_args_def arg_system_def retrievals_def convo_def arg_hits_def
      arg_recentMessages_def format_retrievals_def format_convo_def js_slice_def js_index_def
      promptParts_def DEFAULT_SYSTEM_nonempty js_trim_long_question)

text \<open>
  Claim C7, evaluated where the code leaves it. The input has no hits and no history, the
  default preamble and the default budget of 5000, and a question of 4500 letters. The first
  assembly (preamble, question header, question: 5057 code units) is over the budget, so
  the prompt is rebuilt, and the rebuilt prompt holds a passages header and a conversation
  header, each with an empty body.
\<close>

theorem buildPrompt_empty_inputs_overflow:
  "buildPrompt up empty_args =
     DEFAULT_SYSTEM @ nlnl @ hdr_passages @ nlnl @ nlnl @ hdr_conversation @ nlnl @ nlnl
     @ hdr_question @ nlnl @ long_question"
proof -
  have "length (full up empty_args) = 5057"
    by (simp add: full_empty_args length_DEFAULT_SYSTEM nlnl_def hdr_question_def js_def
        long_question_def)
  moreover have "arg_maxContextChars empty_args = 5000"
    by (simp add: arg_maxContextChars_def empty_args_def)
  moreover have "retrievals empty_args = []" "convo up empty_args = []"
    by (simp_all add: retrievals_def convo_def arg_hits_def arg_recentMessages_def empty_args_def
        format_retrievals_def format_convo_def js_slice_def js_index_def)
  moreover have "arg_system empty_args = DEFAULT_SYSTEM" "question empty_args = long_question"
    by (simp_all add: arg_system_def empty_args_def)
  ultimately show ?thesis
    by (simp add: buildPrompt_def truncateText_def)
qed

section \<open>Properties of \<open>dedupeHits\<close>\<close>

lemma js_trim_Nil: "js_trim [] = []"
  by (simp add: js_trim_def)

lemma blank_key: "blank (hit_url h) \<Longrightarrow> blank (hit_title h) \<Longrightarrow> hit_key h = []"
  by (auto simp: blank_def hit_key_def or_else_def js_trim_Nil split: option.splits)

lemma dedupe_loop_out: "dedupe_loop seen out hs = out @ dedupe_loop seen [] hs"
proof (induction hs arbitrary: seen out)
  case Nil
  show ?case by simp
next
  case (Cons h hs)
  show ?case
    using Cons.IH [of seen out] Cons.IH [of "insert (hit_key h) seen" "out @ [h]"]
      Cons.IH [of "insert (hit_key h) seen" "[h]"]
    by (simp add: Let_def)
qed

lemma dedupe_loop_Cons:
  "dedupe_loop seen [] (h # hs) =
     (if hit_key h = [] \<or> hit_key h \<in> seen then dedupe_loop seen [] hs
      else h # dedupe_loop (insert (hit_key h) seen) [] hs)"
  using dedupe_loop_out [of "insert (hit_key h) seen" "[h]" hs] by (simp add: Let_def)

lemma dedupe_subseq: "subseq (dedupe_loop seen [] hs) hs"
  by (induction hs arbitrary: seen)
     (auto simp: dedupe_loop_Cons simp del: dedupe_loop.simps(2))

lemma dedupe_keys:
  "h \<in> set (dedupe_loop seen [] hs) \<Longrightarrow> hit_key h \<noteq> [] \<and> hit_key h \<notin> seen \<and> h \<in> set hs"
  by (induction hs arbitrary: seen)
     (auto simp: dedupe_loop_Cons simp del: dedupe_loop.simps(2) split: if_splits)

lemma dedupe_distinct: "distinct (map hit_key (dedupe_loop seen [] hs))"
  by (induction hs arbitrary: seen)
     (auto simp: dedupe_loop_Cons simp del: dedupe_loop.simps(2) dest: dedupe_keys)

lemma dedupe_find:
  "k \<noteq> [] \<Longrightarrow> k \<notin> seen \<Longrightarrow>
   find (\<lambda>x. hit_key x = k) (dedupe_loop seen [] hs) = find (\<lambda>x. hit_key x = k) hs"
proof (induction hs arbitrary: seen)
  case Nil
  show ?case by simp
next
  case (Cons h hs)
  then show ?case
    by (auto simp: dedupe_loop_Cons simp del: dedupe_loop.simps(2))
qed

text \<open>
  Claim C6. The hits \<open>dedupeHits\<close> returns are a subsequence of its input, so the input
  order is kept. No two of them have the same source identity (the trimmed URL, or the
  trimmed title when the URL is absent or empty). For every identity that occurs in the
  input, the hit returned for it is the first input hit with that identity. A hit whose
  URL and title are both absent or blank is not returned.
\<close>

theorem dedupeHits_first_seen:
  "subseq (dedupeHits hs) hs
   \<and> distinct (map hit_key (dedupeHits hs))
   \<and> (\<forall>h \<in> set hs. hit_key h \<noteq> [] \<longrightarrow>
         find (\<lambda>x. hit_key x = hit_key h) (dedupeHits hs)
           = find (\<lambda>x. hit_key x = hit_key h) hs)
   \<and> (\<forall>h \<in> set hs. blank (hit_url h) \<and> blank (hit_title h) \<longrightarrow> h \<notin> set (dedupeHits hs))"
  unfolding dedupeHits_def
  using dedupe_subseq dedupe_distinct dedupe_find blank_key dedupe_keys
  by (metis empty_iff)

lemma dedupe_hits_eval: "dedupeHits dup_hits = [hit_a, hit_d]"
  by (simp add: dedupeHits_def dup_hits_def hit_a_def hit_b_def hit_c_def hit_d_def hit_key_def
      or_else_def js_trim_def is_space_def js_def)

theorem dedupeHits_first_seen_witness:
  "hit_c \<in> set dup_hits \<and> hit_key hit_c \<noteq> []
   \<and> hit_b \<in> set dup_hits \<and> blank (hit_url hit_b) \<and> blank (hit_title hit_b)
   \<and> dedupeHits dup_hits = [hit_a, hit_d]
   \<and> subseq (dedupeHits dup_hits) dup_hits
   \<and> distinct (map hit_key (dedupeHits dup_hits))
   \<and> find (\<lambda>x. hit_key x = hit_key hit_c) (dedupeHits dup_hits) = Some hit_a
   \<and> hit_b \<notin> set (dedupeHits dup_hits)"
proof -
  have c: "hit_c \<in> set dup_hits" "hit_b \<in> set dup_hits"
    by (simp_all add: dup_hits_def)
  have k: "hit_key hit_c \<noteq> []"
    by (simp add: hit_c_def hit_key_def or_else_def js_trim_def is_space_def js_def)
  have b: "blank (hit_url hit_b)" "blank (hit_title hit_b)"
    by (simp_all add: hit_b_def blank_def js_trim_def is_space_def js_def)
  have f: "find (\<lambda>x. hit_key x = hit_key hit_c) dup_hits = Some hit_a"
    by (simp add: dup_hits_def hit_a_def hit_c_def hit_key_def or_else_def js_trim_def
        is_space_def js_def)
  from dedupeHits_first_seen [of dup_hits] c k b f dedupe_hits_eval show ?thesis
    by metis
qed

section \<open>Properties of the chat route\<close>

lemma valid_time_clock: "valid_time (clock e)"
  by (simp add: valid_time_def clock_def MAX_TIME_def)

lemma appendMessage_clock_returns:
  "appendMessage cfg e sid \<lparr>in_id = i, in_role = r, in_text = t, in_ts = Some (clock e')\<rparr> st
     \<noteq> Inl err"
  by (simp add: appendMessage_def make_msg_def ts_in_range_def valid_time_clock Let_def)

lemma fold_onChunk:
  "fold onChunk chunks (buf, evs) = (buf @ concat chunks, evs @ map MessageEv chunks)"
  by (induction chunks arbitrary: buf evs) (simp_all add: onChunk_def)

lemma chat_stream_events:
  "fst (chat_stream cfg ce sid srcs prompt w) =
     EventStream
       (SessionEv sid # map MessageEv (fst (generateStream ce prompt))
        @ [case snd (generateStream ce prompt) of
             None \<Rightarrow> DoneEv sid (concat (fst (generateStream ce prompt))) srcs
           | Some err \<Rightarrow> ErrorEv (stream_error_text err)])
       True"
  by (simp add: chat_stream_def fold_onChunk split_beta Let_def appendMessage_clock_returns
      split: option.splits sum.splits)

lemma chat_stream_error:
  "snd (generateStream ce prompt) = Some err \<Longrightarrow>
   chat_stream cfg ce sid srcs prompt w =
     (EventStream
        (SessionEv sid # map MessageEv (fst (generateStream ce prompt))
         @ [ErrorEv (stream_error_text err)]) True,
      w\<lparr>llm_log := llm_log w @ [prompt]\<rparr>)"
  by (simp add: chat_stream_def fold_onChunk split_beta Let_def)

lemma chat_valid:
  "valid_message (b_message b) = Some m \<Longrightarrow>
   chat_prepare cfg ce (b_sessionId b) m w = (Inr (sid, srcs, prompt), w1) \<Longrightarrow>
   chat cfg ce (Some b) w = chat_stream cfg ce sid srcs prompt w1"
  by (simp add: chat_def)

text \<open>
  Claim C8. A request whose message is absent, empty or not a string (also a request
  without a body) gets the JSON response 400, and the world after the request is the world
  before it: the store is unchanged (no session, no user message), the search was not
  called, the generation client was not called, and there is no event stream.
\<close>

theorem chat_rejects_invalid_message:
  "(body = None \<or> (\<exists>b. body = Some b \<and> valid_message (b_message b) = None)) \<longrightarrow>
     chat cfg ce body w = (JsonResponse 400 (js ''message (string) is required''), w)"
  by (auto simp: chat_def valid_message_def)

text \<open>
  Claim C2. A response that is an event stream comes from a request with a valid message
  whose preparation gave a session id, sources and a prompt; its events are the \<open>session\<close>
  event with that id, one \<open>message\<close> event per chunk of the generation in the order of
  the chunks, and one last event: \<open>done\<close> with the id, the concatenation of the chunks
  and the sources when the generation resolved, \<open>error\<close> with the error text when it
  threw. The stream is ended after it.
\<close>

theorem chat_event_sequence:
  "fst (chat cfg ce body w) = EventStream evs ended \<Longrightarrow>
   \<exists>b m sid srcs prompt w1.
     body = Some b \<and> valid_message (b_message b) = Some m
     \<and> chat_prepare cfg ce (b_sessionId b) m w = (Inr (sid, srcs, prompt), w1)
     \<and> evs = SessionEv sid # map MessageEv (fst (generateStream ce prompt))
             @ [case snd (generateStream ce prompt) of
                  None \<Rightarrow> DoneEv sid (concat (fst (generateStream ce prompt))) srcs
                | Some err \<Rightarrow> ErrorEv (stream_error_text err)]
     \<and> ended"
proof -
  assume a: "fst (chat cfg ce body w) = EventStream evs ended"
  define b where "b = (case body of None \<Rightarrow> \<lparr>b_sessionId = None, b_message = Undefined\<rparr>
                        | Some b \<Rightarrow> b)"
  show ?thesis
  proof (cases "valid_message (b_message b)")
    case None
    with a show ?thesis by (simp add: chat_def b_def)
  next
    case (Some m)
    then have body: "body = Some b"
      by (cases body) (simp_all add: b_def valid_message_def)
    obtain r w1 where p: "chat_prepare cfg ce (b_sessionId b) m w = (r, w1)"
      by (cases "chat_prepare cfg ce (b_sessionId b) m w")
    show ?thesis
    proof (cases r)
      case (Inl err)
      with a Some p body show ?thesis by (simp add: chat_def)
    next
      case (Inr t)
      obtain sid srcs prompt where t: "t = (sid, srcs, prompt)"
        by (cases t)
      from Some p Inr t body
      have "chat cfg ce body w = chat_stream cfg ce sid srcs prompt w1"
        by (simp add: chat_valid)
      with a chat_stream_events [of cfg ce sid srcs prompt w1]
      have "evs = SessionEv sid # map MessageEv (fst (generateStream ce prompt))
             @ [case snd (generateStream ce prompt) of
                  None \<Rightarrow> DoneEv sid (concat (fst (generateStream ce prompt))) srcs
                | Some err \<Rightarrow> ErrorEv (stream_error_text err)]" and "ended"
        by simp_all
      with body Some p Inr t show ?thesis by blast
    qed
  qed
qed

text \<open>
  Claim C4. When the generation throws for the prompt of a request, after any number of
  chunks, the response is the event stream of the \<open>session\<close> event, the \<open>message\<close>
  events of the chunks and, last, the \<open>error\<close> event; and the store after the request is
  the store as the preparation left it (with the user message): \<open>appendMessage\<close> is not
  called for the assistant, and the buffered text goes nowhere.
\<close>

theorem chat_generation_error:
  "valid_message (b_message b) = Some m \<Longrightarrow>
   chat_prepare cfg ce (b_sessionId b) m w = (Inr (sid, srcs, prompt), w1) \<Longrightarrow>
   snd (generateStream ce prompt) = Some err \<Longrightarrow>
   fst (chat cfg ce (Some b) w) =
     EventStream (SessionEv sid # map MessageEv (fst (generateStream ce prompt))
                  @ [ErrorEv (stream_error_text err)]) True
   \<and> w_store (snd (chat cfg ce (Some b) w)) = w_store w1
   \<and> search_log (snd (chat cfg ce (Some b) w)) = search_log w1"
  by (simp add: chat_valid chat_stream_error)

text \<open>The three claims above on the scenario of the specification.\<close>

lemma sun_valid: "valid_message (b_message sun_body) = Some (js ''Where does the sun rise?'')"
  by (simp add: valid_message_def sun_body_def js_def)

lemma sun_sources:
  "formatSources (dedupeHits [sun_hit]) (RAG_MAX_SOURCES cfg0)
     = [\<lparr>src_title = Some (js ''Fact A''), src_url = None\<rparr>]"
  by (simp add: formatSources_def dedupeHits_def sun_hit_def hit_key_def or_else_def
      or_null_def js_trim_def is_space_def js_slice_def js_index_def cfg0_def js_def)

lemma sun_prepare:
  "search ce = (\<lambda>q k. Inr [sun_hit]) \<Longrightarrow>
   \<exists>prompt w1.
     chat_prepare cfg0 ce (b_sessionId sun_body) (js ''Where does the sun rise?'') world0
       = (Inr (js ''s1'', [\<lparr>src_title = Some (js ''Fact A''), src_url = None\<rparr>], prompt), w1)"
  by (simp add: chat_prepare_def resolve_session_def or_null_def sun_body_def sun_sources
      appendMessage_def make_msg_def ts_in_range_def valid_time_clock split_beta Let_def js_def)

theorem chat_rejects_invalid_message_witness:
  "chat cfg0 ce_ok None world0 = (JsonResponse 400 (js ''message (string) is required''), world0)
   \<and> chat cfg0 ce_ok (Some \<lparr>b_sessionId = None, b_message = JStr []\<rparr>) world0
       = (JsonResponse 400 (js ''message (string) is required''), world0)
   \<and> chat cfg0 ce_ok (Some \<lparr>b_sessionId = Some (js ''s1''), b_message = JNum 5\<rparr>) world0
       = (JsonResponse 400 (js ''message (string) is required''), world0)"
  using chat_rejects_invalid_message [of None cfg0 ce_ok world0]
    chat_rejects_invalid_message
      [of "Some \<lparr>b_sessionId = None, b_message = JStr []\<rparr>" cfg0 ce_ok world0]
    chat_rejects_invalid_message
      [of "Some \<lparr>b_sessionId = Some (js ''s1''), b_message = JNum 5\<rparr>" cfg0 ce_ok world0]
  by (simp add: valid_message_def)

lemma sun_ok_stream:
  "fst (chat cfg0 ce_ok (Some sun_body) world0) =
     EventStream
       [SessionEv (js ''s1''), MessageEv (js ''The sun ''),
        MessageEv (js ''rises in the east.''),
        DoneEv (js ''s1'') (js ''The sun rises in the east.'')
          [\<lparr>src_title = Some (js ''Fact A''), src_url = None\<rparr>]]
       True"
proof -
  have s: "search ce_ok = (\<lambda>q k. Inr [sun_hit])"
    by (simp add: ce_ok_def)
  from sun_prepare [OF s] obtain prompt w1 where
    p: "chat_prepare cfg0 ce_ok (b_sessionId sun_body) (js ''Where does the sun rise?'') world0
       = (Inr (js ''s1'', [\<lparr>src_title = Some (js ''Fact A''), src_url = None\<rparr>], prompt), w1)"
    by blast
  have g: "generateStream ce_ok prompt = ([js ''The sun '', js ''rises in the east.''], None)"
    by (simp add: ce_ok_def)
  show ?thesis
    unfolding chat_valid [OF sun_valid p] chat_stream_events g
    by (simp add: js_def)
qed

theorem chat_event_sequence_witness:
  "\<exists>prompt w1.
     chat_prepare cfg0 ce_ok (Some (js ''s1'')) (js ''Where does the sun rise?'') world0
       = (Inr (js ''s1'', [\<lparr>src_title = Some (js ''Fact A''), src_url = None\<rparr>], prompt), w1)
     \<and> generateStream ce_ok prompt = ([js ''The sun '', js ''rises in the east.''], None)
     \<and> fst (chat cfg0 ce_ok (Some sun_body) world0) =
         EventStream
           (SessionEv (js ''s1'') # map MessageEv (fst (generateStream ce_ok prompt))
            @ [DoneEv (js ''s1'') (concat (fst (generateStream ce_ok prompt)))
                 [\<lparr>src_title = Some (js ''Fact A''), src_url = None\<rparr>]])
           True"
proof -
  from chat_event_sequence [OF sun_ok_stream]
  obtain b m sid srcs prompt w1 where
    b: "Some sun_body = Some b" and m: "valid_message (b_message b) = Some m"
    and p: "chat_prepare cfg0 ce_ok (b_sessionId b) m world0 = (Inr (sid, srcs, prompt), w1)"
    and e: "[SessionEv (js ''s1''), MessageEv (js ''The sun ''),
             MessageEv (js ''rises in the east.''),
             DoneEv (js ''s1'') (js ''The sun rises in the east.'')
               [\<lparr>src_title = Some (js ''Fact A''), src_url = None\<rparr>]]
            = SessionEv sid # map MessageEv (fst (generateStream ce_ok prompt))
              @ [case snd (generateStream ce_ok prompt) of
                   None \<Rightarrow> DoneEv sid (concat (fst (generateStream ce_ok prompt))) srcs
                 | Some err \<Rightarrow> ErrorEv (stream_error_text err)]"
    by blast
  have g: "generateStream ce_ok prompt = ([js ''The sun '', js ''rises in the east.''], None)"
    by (simp add: ce_ok_def)
  from b m have m': "m = js ''Where does the sun rise?''" and b': "b_sessionId b = Some (js ''s1'')"
    using sun_valid by (auto simp: sun_body_def)
  from e g have "sid = js ''s1''" and "srcs = [\<lparr>src_title = Some (js ''Fact A''), src_url = None\<rparr>]"
    by simp_all
  with p m' b' g sun_ok_stream show ?thesis
    by (intro exI [of _ prompt] exI [of _ w1]) (simp add: js_def)
qed

theorem chat_generation_error_witness:
  "fst (chat cfg0 ce_fail (Some sun_body) world0) =
     EventStream [SessionEv (js ''s1''), MessageEv (js ''The sun ''),
                  ErrorEv (js ''Gemini API error'')] True
   \<and> w_store (snd (chat cfg0 ce_fail (Some sun_body) world0))
       = w_store (snd (chat_prepare cfg0 ce_fail (Some (js ''s1''))
                         (js ''Where does the sun rise?'') world0))"
proof -
  have s: "search ce_fail = (\<lambda>q k. Inr [sun_hit])"
    by (simp add: ce_fail_def ce_ok_def)
  from sun_prepare [OF s] obtain prompt w1 where
    p: "chat_prepare cfg0 ce_fail (b_sessionId sun_body) (js ''Where does the sun rise?'') world0
       = (Inr (js ''s1'', [\<lparr>src_title = Some (js ''Fact A''), src_url = None\<rparr>], prompt), w1)"
    by blast
  have g: "snd (generateStream ce_fail prompt) = Some gemini_error"
    "fst (generateStream ce_fail prompt) = [js ''The sun '']"
    by (simp_all add: ce_fail_def)
  have t: "stream_error_text gemini_error = js ''Gemini API error''"
    by (simp add: stream_error_text_def gemini_error_def js_def)
  have sb: "b_sessionId sun_body = Some (js ''s1'')"
    by (simp add: sun_body_def)
  from chat_generation_error [OF sun_valid p g(1)] p show ?thesis
    by (simp add: g t sb)
qed

section \<open>Properties of the session store\<close>

text \<open>
  Claim C5. In a call during which neither tier is usable: \<open>appendMessage\<close>, given a
  message whose timestamp is absent, 0 or a time value, returns the session id and the
  message echoed, with the id, role and text it was given (the generated id, the role
  \<open>user\<close> and the empty text for those missing) and its timestamp (the clock reading
  when none was given), and leaves the store as it was; \<open>createSession\<close> returns the id
  it was given or the generated one; \<open>getMessages\<close> and \<open>listSessions\<close> return the
  empty list; these three return on every input and leave the store as it was. The one
  exception \<open>appendMessage\<close> raises is the \<open>RangeError\<close> for a timestamp that is not
  a time value, and it raises it in every call, whatever the tiers.
\<close>

theorem store_total_unavailability:
  "\<not> redis_up e \<and> \<not> prisma_up e \<longrightarrow>
     (ts_in_range message \<longrightarrow>
        appendMessage cfg e sid message st =
          Inr ((sid,
                \<lparr>msg_id = or_else (in_id message) (uuidv4 e),
                 msg_role = or_else (in_role message) (js ''user''),
                 msg_text = or_else (in_text message) [],
                 msg_ts = (case in_ts message of None \<Rightarrow> clock e
                           | Some t \<Rightarrow> if t \<noteq> 0 then t else clock e)\<rparr>), st))
     \<and> (\<forall>err. appendMessage cfg e sid message st = Inl err \<longrightarrow>
           err = RangeError \<and> \<not> ts_in_range message
           \<and> (\<forall>e' st'. appendMessage cfg e' sid message st' = Inl RangeError))
     \<and> createSession e arg1 arg2 st
         = (or_else (fst (normalizeCreateArgs
                            (if arg1 = AUndefined then ANull else arg1)
                            (if arg2 = AUndefined then AObj empty_opts else arg2)))
              (uuidv4 e), st)
     \<and> (\<forall>opts. arg1 = AUndefined \<or> arg1 = ANull \<or> arg1 = AObj opts \<longrightarrow>
            fst (createSession e arg1 arg2 st) = uuidv4 e)
     \<and> getMessages cfg e sid limit st = ([], st)
     \<and> listSessions e limit2 st = ([], st)"
  by (auto simp: appendMessage_def createSession_def getMessages_def listSessions_def
      make_msg_def or_else_def normalizeCreateArgs_def Let_def split_beta
      split: jsarg.splits option.splits if_splits)

theorem store_total_unavailability_witness:
  "appendMessage cfg0 (env_at (js ''u1'') 7 False False) (js ''s1'')
     \<lparr>in_id = None, in_role = None, in_text = Some (js ''Hello''), in_ts = None\<rparr>
     empty_store
   = Inr ((js ''s1'', \<lparr>msg_id = js ''u1'', msg_role = js ''user'', msg_text = js ''Hello'',
                       msg_ts = 7\<rparr>), empty_store)
   \<and> appendMessage cfg0 (env_at (js ''u2'') 8 False False) (js ''s1'')
       \<lparr>in_id = Some (js ''m2''), in_role = Some (js ''assistant''),
        in_text = Some (js ''Hi''), in_ts = Some 5\<rparr>
       empty_store
     = Inr ((js ''s1'', \<lparr>msg_id = js ''m2'', msg_role = js ''assistant'',
                         msg_text = js ''Hi'', msg_ts = 5\<rparr>), empty_store)
   \<and> createSession (env_at (js ''u1'') 7 False False) AUndefined AUndefined empty_store
       = (js ''u1'', empty_store)
   \<and> getMessages cfg0 (env_at (js ''u1'') 7 False False) (js ''s1'') (Some 10) empty_store
       = ([], empty_store)
   \<and> listSessions (env_at (js ''u1'') 7 False False) None empty_store = ([], empty_store)"
  using store_total_unavailability
    [of "env_at (js ''u1'') 7 False False"
        "\<lparr>in_id = None, in_role = None, in_text = Some (js ''Hello''), in_ts = None\<rparr>"
        cfg0 "js ''s1''" empty_store AUndefined AUndefined "Some 10" None]
    store_total_unavailability
    [of "env_at (js ''u2'') 8 False False"
        "\<lparr>in_id = Some (js ''m2''), in_role = Some (js ''assistant''),
          in_text = Some (js ''Hi''), in_ts = Some 5\<rparr>"
        cfg0 "js ''s1''" empty_store AUndefined AUndefined "Some 10" None]
  by (simp add: env_at_def ts_in_range_def valid_time_def MAX_TIME_def clock_def or_else_def
      normalizeCreateArgs_def js_def)

text \<open>
  Claim C10. Called with one object argument and no second argument, \<open>createSession\<close>
  returns the generated identifier whatever the \<open>id\<close> field of the object holds. When
  the generated identifier differs from the supplied one, the call leaves every entry
  under the supplied id as it was: the session row, the metadata hash and the entry of the
  sorted set are written under the generated identifier only.
\<close>

theorem createSession_ignores_object_id:
  "fst (createSession e (AObj opts) AUndefined st) = uuidv4 e
   \<and> createSession e (AObj opts) AUndefined st = createSession e AUndefined AUndefined st
   \<and> (o_id opts = Some supplied \<and> supplied \<noteq> uuidv4 e \<longrightarrow>
        meta (redis (snd (createSession e (AObj opts) AUndefined st))) supplied
          = meta (redis st) supplied
        \<and> (supplied \<in> fst ` set (sessions_zset
                                   (redis (snd (createSession e (AObj opts) AUndefined st))))
             \<longleftrightarrow> supplied \<in> fst ` set (sessions_zset (redis st)))
        \<and> (supplied \<in> s_id ` set (session_table
                                    (prisma (snd (createSession e (AObj opts) AUndefined st))))
             \<longleftrightarrow> supplied \<in> s_id ` set (session_table (prisma st))))"
  by (auto simp: createSession_def normalizeCreateArgs_def truthy_arg_def opts_or_empty_def
      empty_opts_def valid_time_clock or_else_def create_populate_def zadd_def hset_all_def
      session_upsert_def Let_def)

theorem createSession_ignores_object_id_witness:
  "js ''route-id'' \<noteq> uuidv4 (env_at (js ''u1'') 7 True True)
   \<and> fst (createSession (env_at (js ''u1'') 7 True True) (AObj route_opts) AUndefined empty_store)
       = js ''u1''
   \<and> meta (redis (snd (createSession (env_at (js ''u1'') 7 True True) (AObj route_opts)
                          AUndefined empty_store))) (js ''route-id'') = no_hash
   \<and> js ''route-id'' \<notin> s_id ` set (session_table (prisma (snd (createSession
          (env_at (js ''u1'') 7 True True) (AObj route_opts) AUndefined empty_store))))
   \<and> js ''route-id'' \<notin> fst ` set (sessions_zset (redis (snd (createSession
          (env_at (js ''u1'') 7 True True) (AObj route_opts) AUndefined empty_store))))"
  using createSession_ignores_object_id
    [of "env_at (js ''u1'') 7 True True" route_opts empty_store "js ''route-id''",
     THEN conjunct1]
    createSession_ignores_object_id
    [of "env_at (js ''u1'') 7 True True" route_opts empty_store "js ''route-id''",
     THEN conjunct2, THEN conjunct2]
  by (simp add: env_at_def route_opts_def empty_store_def js_def)

subsection \<open>Order of the messages read back\<close>














lemma appendMessage_Inr:
  "appendMessage cfg e sid mi st = Inr (r, st1) \<Longrightarrow> make_msg e mi = Inr (snd r) \<and> fst r = sid"
  by (auto simp: appendMessage_def Let_def split: sum.splits if_splits)



lemma append_all_Cons:
  "append_all cfg sid (c # cs) st = Inr (ms, st') \<Longrightarrow>
   \<exists>r st1 rs. appendMessage cfg (fst c) sid (snd c) st = Inr (r, st1)
     \<and> append_all cfg sid cs st1 = Inr (rs, st') \<and> ms = snd r # rs"
  by (auto split: sum.splits)

lemma append_all_length:
  "append_all cfg sid calls st = Inr (ms, st') \<Longrightarrow> length ms = length calls"
proof (induction calls arbitrary: st ms)
  case Nil
  then show ?case by simp
next
  case (Cons c cs)
  from append_all_Cons [OF Cons.prems] obtain r st1 rs where
    a: "appendMessage cfg (fst c) sid (snd c) st = Inr (r, st1)"
    and rest: "append_all cfg sid cs st1 = Inr (rs, st')" and ms: "ms = snd r # rs"
    by blast
  from Cons.IH [OF rest] ms show ?case by simp
qed

















end
